theory Spec2Isabelle
  imports Complex_Main
begin

section \<open>Python values and exceptions\<close>

text \<open>
  The trading script \<^verbatim>\<open>ib_ape_trader.py\<close> is embedded as functions over an
  explicit world (a clock and a trace of the calls made to the outside) and an
  environment (what the broker gateway and the trend data source answer).
  Amounts of money and prices are Python floats in the script; they are exact
  real numbers here, so rounding, infinities and NaN are outside the model.
\<close>

datatype error =
    TypeError
  | ValueError
  | OverflowError
  | ZeroDivisionError
  | KeyError
  | NameError
  | RequestException
  | Exception string

text \<open>
  The values stored in \<^verbatim>\<open>MARKET_TIMES\<close>: integers, strings, tuples and
  dictionaries (a dictionary keeps the insertion order of its keys).
\<close>

datatype pyval =
    PInt int
  | PStr string
  | PTuple "pyval list"
  | PDict "(string \<times> pyval) list"

text \<open>
  Iterating a value, as tuple unpacking and \<^verbatim>\<open>*args\<close> do: a tuple yields its
  items, a string its characters (one-character strings), a dictionary its keys,
  and an integer is not iterable.
\<close>

fun py_iter :: "pyval \<Rightarrow> error + pyval list" where
  "py_iter (PInt i) = Inl TypeError"
| "py_iter (PStr s) = Inr (map (\<lambda>c. PStr [c]) s)"
| "py_iter (PTuple vs) = Inr vs"
| "py_iter (PDict kvs) = Inr (map (\<lambda>kv. PStr (fst kv)) kvs)"

text \<open>\<^verbatim>\<open>a, b = v\<close>: exactly two items, otherwise ValueError.\<close>

definition unpack2 :: "pyval \<Rightarrow> error + (pyval \<times> pyval)" where
  "unpack2 v =
     (case py_iter v of
        Inl e \<Rightarrow> Inl e
      | Inr items \<Rightarrow>
          (case items of
             [a, b] \<Rightarrow> Inr (a, b)
           | _ \<Rightarrow> Inl ValueError))"

text \<open>\<^verbatim>\<open>d[k]\<close> raises KeyError on a missing key; \<^verbatim>\<open>d.get(k, default)\<close> does not.\<close>

definition dict_getitem :: "(string \<times> pyval) list \<Rightarrow> string \<Rightarrow> error + pyval" where
  "dict_getitem d k = (case map_of d k of None \<Rightarrow> Inl KeyError | Some v \<Rightarrow> Inr v)"

definition dict_get :: "(string \<times> pyval) list \<Rightarrow> string \<Rightarrow> pyval \<Rightarrow> pyval" where
  "dict_get d k dflt = (case map_of d k of None \<Rightarrow> dflt | Some v \<Rightarrow> v)"

text \<open>
  \<^verbatim>\<open>int(x)\<close> of a float truncates toward zero.
\<close>

definition py_int :: "real \<Rightarrow> int" where
  "py_int x = (if 0 \<le> x then \<lfloor>x\<rfloor> else \<lceil>x\<rceil>)"

text \<open>\<^verbatim>\<open>a / n\<close> with \<^verbatim>\<open>n = len(...)\<close>: ZeroDivisionError when \<^verbatim>\<open>n\<close> is 0.\<close>

definition py_truediv :: "real \<Rightarrow> nat \<Rightarrow> error + real" where
  "py_truediv a n = (if n = 0 then Inl ZeroDivisionError else Inr (a / of_nat n))"

subsection \<open>Times of day\<close>

datatype pytime = Time (hour: nat) (minute: nat) (second: nat) (microsecond: nat)

fun time_less :: "pytime \<Rightarrow> pytime \<Rightarrow> bool" where
  "time_less (Time h m s u) (Time h' m' s' u') =
     (h < h' \<or> (h = h' \<and> (m < m' \<or> (m = m' \<and> (s < s' \<or> (s = s' \<and> u < u'))))))"

text \<open>
  The integer arguments of a C function, converted from left to right: a value
  that is not an integer gives TypeError, an integer outside the range of a C
  \<^verbatim>\<open>int\<close> gives OverflowError.
\<close>

fun int_args :: "pyval list \<Rightarrow> error + int list" where
  "int_args [] = Inr []"
| "int_args (PInt i # vs) =
     (if - 2147483648 \<le> i \<and> i \<le> 2147483647
      then (case int_args vs of Inl e \<Rightarrow> Inl e | Inr js \<Rightarrow> Inr (i # js))
      else Inl OverflowError)"
| "int_args (v # vs) = Inl TypeError"

text \<open>
  \<^verbatim>\<open>datetime.time(hour=0, minute=0, second=0, microsecond=0, tzinfo=None)\<close>
  called with positional arguments. More than five are too many (TypeError);
  then the first four are converted to integers; then their ranges are checked
  (ValueError); then a fifth argument would have to be a tzinfo object, which no
  \<open>pyval\<close> is (TypeError).
\<close>

definition datetime_time :: "pyval list \<Rightarrow> error + pytime" where
  "datetime_time args =
     (if 5 < length args then Inl TypeError
      else
        (case int_args (take 4 args) of
           Inl e \<Rightarrow> Inl e
         | Inr js \<Rightarrow>
             (let f = js @ replicate (4 - length js) 0;
                  h = f ! 0; m = f ! 1; s = f ! 2; u = f ! 3
              in if \<not> (0 \<le> h \<and> h < 24 \<and> 0 \<le> m \<and> m < 60 \<and> 0 \<le> s \<and> s < 60
                       \<and> 0 \<le> u \<and> u < 1000000)
                 then Inl ValueError
                 else if 4 < length args then Inl TypeError
                 else Inr (Time (nat h) (nat m) (nat s) (nat u)))))"

section \<open>Module constants\<close>

definition RESERVE_PERCENTAGE :: real where
  "RESERVE_PERCENTAGE = 25 / 100"

text \<open>
  One value of \<^verbatim>\<open>MARKET_TIMES\<close>: the dictionary
  \<^verbatim>\<open>{"open": (oh, om), "close": (ch, cm)}\<close>.
\<close>

definition market_window :: "int \<Rightarrow> int \<Rightarrow> int \<Rightarrow> int \<Rightarrow> pyval" where
  "market_window oh om ch cm =
     PDict [(''open'', PTuple [PInt oh, PInt om]), (''close'', PTuple [PInt ch, PInt cm])]"

definition MARKET_TIMES :: "(string \<times> pyval) list" where
  "MARKET_TIMES =
     [(''NYSE'', market_window 9 30 15 55),
      (''NASDAQ'', market_window 9 30 15 55),
      (''TSX'', market_window 9 30 15 55),
      (''LSE'', market_window 8 0 16 25),
      (''TSE'', market_window 9 0 13 25)]"

section \<open>The outside world\<close>

datatype contract = Stock (contract_symbol: string) (contract_exchange: string)
  (contract_currency: string)

datatype order = MarketOrder (action: string) (totalQuantity: real)

record orderStatus =
  status :: string
  avgFillPrice :: real

datatype ticker = Ticker (tk_last: real) (tk_close: real)

text \<open>
  What one HTTP GET of the trend data source gives: a transport error or an
  unsuccessful response (both a \<^verbatim>\<open>requests.RequestException\<close>), or a JSON body,
  given as the list under its \<^verbatim>\<open>results\<close> key (empty when the key is
  absent), each entry with its \<^verbatim>\<open>ticker\<close> and \<^verbatim>\<open>exchange\<close> fields.
\<close>

datatype response = RequestError | Json "(string \<times> string) list"

text \<open>
  The environment fixes every answer of the outside: the response to the
  \<open>k\<close>-th fetch attempt, whether the \<open>k\<close>-th connection attempt succeeds, the
  holdings and the net liquidation value the broker reports, the market data
  snapshot of a contract, and the order status read back for the \<open>n\<close>-th order
  placed in the session.
\<close>

record environment =
  trend_source :: "nat \<Rightarrow> response"
  connect_ok :: "nat \<Rightarrow> bool"
  ib_positions :: "(contract \<times> real) list"
  net_liquidation :: real
  market_data_of :: "contract \<Rightarrow> ticker"
  order_result :: "nat \<Rightarrow> orderStatus"

datatype message =
    FetchFailed error nat
  | ConnectFailed
  | ClosedAll
  | OrderFailed string string
  | DailySummary real real real
  | TradingComplete

datatype event =
    HttpGet
  | IBConnect
  | IBDisconnect
  | Sleep nat
  | Log message
  | QualifyContracts contract
  | ReqMktData contract
  | PlaceOrder contract order

text \<open>The clock counts seconds; the trace lists the calls made, oldest first.\<close>

record world =
  clock :: nat
  trace :: "event list"

definition emit :: "event \<Rightarrow> world \<Rightarrow> world" where
  "emit e w = w\<lparr>trace := trace w @ [e]\<rparr>"

definition log_message :: "message \<Rightarrow> world \<Rightarrow> world" where
  "log_message m w = emit (Log m) w"

text \<open>\<^verbatim>\<open>time.sleep(d)\<close> and \<^verbatim>\<open>ib.sleep(d)\<close>.\<close>

definition sleep :: "nat \<Rightarrow> world \<Rightarrow> world" where
  "sleep d w = emit (Sleep d) (w\<lparr>clock := clock w + d\<rparr>)"

text \<open>\<^verbatim>\<open>datetime.datetime.now().time()\<close>.\<close>

definition now_time :: "world \<Rightarrow> pytime" where
  "now_time w =
     (let s = clock w mod 86400
      in Time (s div 3600) (s mod 3600 div 60) (s mod 60) 0)"

fun is_order :: "event \<Rightarrow> bool" where
  "is_order (PlaceOrder c ord) = True"
| "is_order ev = False"

fun is_buy :: "event \<Rightarrow> bool" where
  "is_buy (PlaceOrder c ord) = (action ord = ''BUY'')"
| "is_buy ev = False"

fun is_sell :: "event \<Rightarrow> bool" where
  "is_sell (PlaceOrder c ord) = (action ord = ''SELL'')"
| "is_sell ev = False"

text \<open>An event that is not an order, or an order on a SMART-routed contract in USD.\<close>

fun on_smart_usd :: "event \<Rightarrow> bool" where
  "on_smart_usd (PlaceOrder c ord) =
     (contract_exchange c = ''SMART'' \<and> contract_currency c = ''USD'')"
| "on_smart_usd ev = True"

definition orders_placed :: "world \<Rightarrow> nat" where
  "orders_placed w = length (filter is_order (trace w))"

text \<open>
  \<^verbatim>\<open>trade = ib.placeOrder(contract, order)\<close>; the status is what the script
  reads from \<^verbatim>\<open>trade.orderStatus\<close> after its pause.
\<close>

definition placeOrder :: "environment \<Rightarrow> contract \<Rightarrow> order \<Rightarrow> world \<Rightarrow> orderStatus \<times> world" where
  "placeOrder env c ord w = (order_result env (orders_placed w), emit (PlaceOrder c ord) w)"

section \<open>The script's functions\<close>

subsection \<open>fetch_trending_stocks\<close>

text \<open>The body of the \<^verbatim>\<open>try\<close>, on the response of one attempt.\<close>

definition parse_response :: "response \<Rightarrow> error + (string \<times> string) list" where
  "parse_response r =
     (case r of
        RequestError \<Rightarrow> Inl RequestException
      | Json results \<Rightarrow>
          (let stocks = take 10 results
           in if stocks = [] then Inl ValueError else Inr stocks))"

text \<open>
  \<^verbatim>\<open>for attempt in range(retries)\<close>, as a recursion over the attempt numbers
  still to run. Both exceptions the body raises are caught by the
  \<^verbatim>\<open>except\<close> clause.
\<close>

fun fetch_attempts ::
  "environment \<Rightarrow> nat \<Rightarrow> nat list \<Rightarrow> world \<Rightarrow> (error + (string \<times> string) list) \<times> world" where
  "fetch_attempts env delay [] w =
     (Inl (Exception ''Failed to fetch trending stocks after multiple attempts.''), w)"
| "fetch_attempts env delay (attempt # rest) w =
     (let w1 = emit HttpGet w
      in case parse_response (trend_source env attempt) of
           Inr stocks \<Rightarrow> (Inr stocks, w1)
         | Inl e \<Rightarrow> fetch_attempts env delay rest (sleep delay (log_message (FetchFailed e delay) w1)))"

definition fetch_trending_stocks ::
  "environment \<Rightarrow> nat \<Rightarrow> nat \<Rightarrow> world \<Rightarrow> (error + (string \<times> string) list) \<times> world" where
  "fetch_trending_stocks env retries delay w = fetch_attempts env delay [0..<retries] w"

text \<open>What a failed attempt \<open>k\<close> leaves in the trace: the call, the log line, the pause.\<close>

definition failed_attempt :: "environment \<Rightarrow> nat \<Rightarrow> nat \<Rightarrow> event list" where
  "failed_attempt env delay k =
     [HttpGet, Log (FetchFailed (projl (parse_response (trend_source env k))) delay), Sleep delay]"

subsection \<open>connect_ib\<close>

fun connect_attempts :: "environment \<Rightarrow> nat list \<Rightarrow> world \<Rightarrow> (error + unit) \<times> world" where
  "connect_attempts env [] w =
     (Inl (Exception ''Failed to connect to Interactive Brokers after multiple attempts.''), w)"
| "connect_attempts env (k # rest) w =
     (let w1 = emit IBConnect w
      in if connect_ok env k then (Inr (), w1)
         else connect_attempts env rest (sleep 5 (log_message ConnectFailed w1)))"

definition connect_ib :: "environment \<Rightarrow> world \<Rightarrow> (error + unit) \<times> world" where
  "connect_ib env w = connect_attempts env [0..<3] w"

subsection \<open>get_available_funds, get_market_times, close_all_positions\<close>

definition get_available_funds :: "environment \<Rightarrow> real \<Rightarrow> real" where
  "get_available_funds env reserve_fund = (net_liquidation env - reserve_fund) * (95 / 100)"

text \<open>The default \<^verbatim>\<open>MARKET_TIMES["NYSE"]\<close> is evaluated before the lookup.\<close>

definition get_market_times :: "string \<Rightarrow> error + pyval" where
  "get_market_times exchange =
     (case dict_getitem MARKET_TIMES ''NYSE'' of
        Inl e \<Rightarrow> Inl e
      | Inr nyse \<Rightarrow> Inr (dict_get MARKET_TIMES exchange nyse))"

fun close_positions :: "(contract \<times> real) list \<Rightarrow> world \<Rightarrow> world" where
  "close_positions [] w = w"
| "close_positions (pos # rest) w =
     close_positions rest (emit (PlaceOrder (fst pos) (MarketOrder ''SELL'' (snd pos))) w)"

definition close_all_positions :: "environment \<Rightarrow> world \<Rightarrow> world" where
  "close_all_positions env w = log_message ClosedAll (close_positions (ib_positions env) w)"

subsection \<open>main: the buy loop\<close>

type_synonym position = "contract \<times> int \<times> string"

text \<open>
  One pass of the loop over \<^verbatim>\<open>stocks\<close>. The loop carries the variable
  \<^verbatim>\<open>market_price\<close> (unbound, \<open>None\<close>, before the first pass) and the list
  \<^verbatim>\<open>positions\<close>. \<^verbatim>\<open>ib.qualifyContracts\<close> fills in the broker's identifiers
  and leaves symbol, exchange and currency of the contract as constructed.
\<close>

text \<open>\<^verbatim>\<open>market_data.last if market_data.last else market_data.close\<close>.\<close>

definition pick_price :: "ticker \<Rightarrow> real" where
  "pick_price market_data =
     (if tk_last market_data \<noteq> 0 then tk_last market_data else tk_close market_data)"

text \<open>\<^verbatim>\<open>int(allocation_per_stock / market_price) if market_price > 0 else 0\<close>.\<close>

definition share_quantity :: "real \<Rightarrow> real \<Rightarrow> int" where
  "share_quantity allocation_per_stock market_price =
     (if market_price > 0 then py_int (allocation_per_stock / market_price) else 0)"

definition buy_iteration ::
  "environment \<Rightarrow> real \<Rightarrow> string \<times> string \<Rightarrow> real option \<times> position list \<Rightarrow> world
     \<Rightarrow> (real option \<times> position list) \<times> world" where
  "buy_iteration env allocation_per_stock se st w =
     (let stock = fst se; exchange = snd se; positions = snd st;
          contract = Stock stock ''SMART'' ''USD'';
          w1 = emit (QualifyContracts contract) w;
          market_data = market_data_of env contract;
          w2 = emit (ReqMktData contract) w1;
          w3 = sleep 1 w2;
          market_price = pick_price market_data;
          quantity = share_quantity allocation_per_stock market_price
      in if quantity > 0 then
           (let tw = placeOrder env contract (MarketOrder ''BUY'' (of_int quantity)) w3;
                trade = fst tw;
                w5 = sleep 2 (snd tw);
                w6 = (if status trade \<notin> set [''Filled'', ''Submitted'']
                      then log_message (OrderFailed (contract_symbol contract) (status trade)) w5
                      else w5)
            in ((Some market_price, positions @ [(contract, quantity, exchange)]), w6))
         else ((Some market_price, positions), w3))"

fun buy_loop ::
  "environment \<Rightarrow> real \<Rightarrow> (string \<times> string) list \<Rightarrow> real option \<times> position list \<Rightarrow> world
     \<Rightarrow> (real option \<times> position list) \<times> world" where
  "buy_loop env allocation_per_stock [] st w = (st, w)"
| "buy_loop env allocation_per_stock (se # rest) st w =
     (let r = buy_iteration env allocation_per_stock se st w
      in buy_loop env allocation_per_stock rest (fst r) (snd r))"

subsection \<open>main: the sell loop\<close>

text \<open>
  \<^verbatim>\<open>while datetime.datetime.now().time() < datetime.time(*close_time): time.sleep(1)\<close>.
  The condition is evaluated afresh on every pass, the constructor call
  included. The loop need not end, so its result is an option.
\<close>

partial_function (option) wait_for_close ::
  "pyval \<Rightarrow> world \<Rightarrow> ((error + unit) \<times> world) option" where
  "wait_for_close close_time w =
     (let now = now_time w
      in case py_iter close_time of
           Inl e \<Rightarrow> Some (Inl e, w)
         | Inr args \<Rightarrow>
             (case datetime_time args of
                Inl e \<Rightarrow> Some (Inl e, w)
              | Inr t \<Rightarrow>
                  if time_less now t then wait_for_close close_time (sleep 1 w)
                  else Some (Inr (), w)))"

text \<open>The statements after the wait: place the sell order and book the profit.\<close>

definition sell_position ::
  "environment \<Rightarrow> real option \<Rightarrow> contract \<Rightarrow> int \<Rightarrow> real \<Rightarrow> world \<Rightarrow> (error + real) \<times> world" where
  "sell_position env market_price contract quantity total_profit w =
     (let sell_order = MarketOrder ''SELL'' (of_int quantity);
          tw = placeOrder env contract sell_order w;
          trade = fst tw;
          w2 = sleep 2 (snd tw)
      in if status trade = ''Filled'' then
           (case market_price of
              None \<Rightarrow> (Inl NameError, w2)
            | Some mp \<Rightarrow> (Inr (total_profit + (avgFillPrice trade - mp) * of_int quantity), w2))
         else (Inr total_profit, w2))"

text \<open>One pass of the loop over \<^verbatim>\<open>positions\<close>.\<close>

definition sell_iteration ::
  "environment \<Rightarrow> real option \<Rightarrow> position \<Rightarrow> real \<Rightarrow> world \<Rightarrow> ((error + real) \<times> world) option" where
  "sell_iteration env market_price pos total_profit w =
     (let contract = fst pos; quantity = fst (snd pos); exchange = snd (snd pos)
      in case get_market_times exchange of
           Inl e \<Rightarrow> Some (Inl e, w)
         | Inr market_times \<Rightarrow>
             (case unpack2 market_times of
                Inl e \<Rightarrow> Some (Inl e, w)
              | Inr uc \<Rightarrow>
                  (let close_time = snd uc
                   in case wait_for_close close_time w of
                        None \<Rightarrow> None
                      | Some (Inl e, w1) \<Rightarrow> Some (Inl e, w1)
                      | Some (Inr u, w1) \<Rightarrow>
                          Some (sell_position env market_price contract quantity total_profit w1))))"

fun sell_loop ::
  "environment \<Rightarrow> real option \<Rightarrow> position list \<Rightarrow> real \<Rightarrow> world \<Rightarrow> ((error + real) \<times> world) option" where
  "sell_loop env market_price [] total_profit w = Some (Inr total_profit, w)"
| "sell_loop env market_price (pos # rest) total_profit w =
     (case sell_iteration env market_price pos total_profit w of
        None \<Rightarrow> None
      | Some (Inl e, w1) \<Rightarrow> Some (Inl e, w1)
      | Some (Inr total_profit', w1) \<Rightarrow> sell_loop env market_price rest total_profit' w1)"

subsection \<open>main\<close>

text \<open>The reserve bookkeeping at the end of the run.\<close>

definition reserve_accrual :: "real \<Rightarrow> real \<Rightarrow> real \<times> real" where
  "reserve_accrual total_profit reserve_fund =
     (let daily_reserve = total_profit * RESERVE_PERCENTAGE
      in (daily_reserve, reserve_fund + daily_reserve))"

text \<open>
  A run that completes returns \<open>(total_profit, daily_reserve, reserve_fund)\<close>;
  an uncaught exception ends it with the error and the world as it is then.
\<close>

definition main :: "environment \<Rightarrow> world \<Rightarrow> ((error + real \<times> real \<times> real) \<times> world) option" where
  "main env w0 =
     (case connect_ib env w0 of
        (Inl e, w1) \<Rightarrow> Some (Inl e, w1)
      | (Inr ib, w1) \<Rightarrow>
          (let w2 = close_all_positions env w1;
               reserve_fund = 0
           in case fetch_trending_stocks env 3 5 w2 of
                (Inl e, w3) \<Rightarrow> Some (Inl e, w3)
              | (Inr stocks, w3) \<Rightarrow>
                  (let available_funds = get_available_funds env reserve_fund
                   in case py_truediv available_funds (length stocks) of
                        Inl e \<Rightarrow> Some (Inl e, w3)
                      | Inr allocation_per_stock \<Rightarrow>
                          (let b = buy_loop env allocation_per_stock stocks (None, []) w3;
                               market_price = fst (fst b);
                               positions = snd (fst b)
                           in case sell_loop env market_price positions 0 (snd b) of
                                None \<Rightarrow> None
                              | Some (Inl e, w5) \<Rightarrow> Some (Inl e, w5)
                              | Some (Inr total_profit, w5) \<Rightarrow>
                                  (let dr = reserve_accrual total_profit reserve_fund;
                                       daily_reserve = fst dr;
                                       reserve_fund' = snd dr;
                                       w6 = log_message
                                              (DailySummary total_profit daily_reserve reserve_fund') w5;
                                       w7 = emit IBDisconnect w6;
                                       w8 = log_message TradingComplete w7
                                   in Some (Inr (total_profit, daily_reserve, reserve_fund'), w8))))))"

section \<open>Sample runs\<close>

text \<open>
  A trend data source that fails \<open>n\<close> times and then lists two tickers, a
  broker whose first \<open>connect_failures\<close> connection attempts fail, that holds
  nothing, quotes AAPL at 250 (last trade) and SHOP at 90 (previous close, no
  last trade), and reports every order with the given status at 260.
\<close>

definition two_tickers :: "(string \<times> string) list" where
  "two_tickers = [(''AAPL'', ''NASDAQ''), (''SHOP'', ''TSX'')]"

definition flaky_source :: "nat \<Rightarrow> nat \<Rightarrow> response" where
  "flaky_source n k = (if k < n then RequestError else Json two_tickers)"

definition late_connect :: "nat \<Rightarrow> nat \<Rightarrow> bool" where
  "late_connect n k = (n \<le> k)"

definition demo_prices :: "contract \<Rightarrow> ticker" where
  "demo_prices c = (if contract_symbol c = ''AAPL'' then Ticker 250 240 else Ticker 0 90)"

definition demo_status :: "string \<Rightarrow> nat \<Rightarrow> orderStatus" where
  "demo_status st n = \<lparr>status = st, avgFillPrice = 260\<rparr>"

definition demo_env :: "nat \<Rightarrow> nat \<Rightarrow> real \<Rightarrow> string \<Rightarrow> environment" where
  "demo_env fetch_failures connect_failures nlv st =
     \<lparr>trend_source = flaky_source fetch_failures,
      connect_ok = late_connect connect_failures,
      ib_positions = [],
      net_liquidation = nlv,
      market_data_of = demo_prices,
      order_result = demo_status st\<rparr>"

definition w0 :: world where
  "w0 = \<lparr>clock = 0, trace = []\<rparr>"

section \<open>The wait for the close raises\<close>

text \<open>
  \<^verbatim>\<open>get_market_times\<close> returns one of the dictionaries of
  \<^verbatim>\<open>MARKET_TIMES\<close>, and \<^verbatim>\<open>_, close_time = get_market_times(exchange)\<close>
  unpacks its two keys, so \<^verbatim>\<open>close_time\<close> is the string \<^verbatim>\<open>"close"\<close> and
  \<^verbatim>\<open>datetime.time(*close_time)\<close> is called with five one-character strings.
\<close>

lemma get_market_times_keys:
  "\<exists>d. get_market_times exchange = Inr d \<and> unpack2 d = Inr (PStr ''open'', PStr ''close'')"
  by (simp add: get_market_times_def dict_getitem_def dict_get_def MARKET_TIMES_def
      unpack2_def market_window_def)

lemma wait_for_close_key:
  "wait_for_close (PStr ''close'') w = Some (Inl TypeError, w)"
  by (subst wait_for_close.simps) (simp add: datetime_time_def)

lemma sell_iteration_raises:
  "sell_iteration env market_price pos total_profit w = Some (Inl TypeError, w)"
proof -
  obtain d where g: "get_market_times (snd (snd pos)) = Inr d"
    and u: "unpack2 d = Inr (PStr ''open'', PStr ''close'')"
    using get_market_times_keys by blast
  show ?thesis
    by (simp add: sell_iteration_def g u wait_for_close_key)
qed

lemma sell_loop_raises:
  "sell_loop env market_price (pos # rest) total_profit w = Some (Inl TypeError, w)"
  by (simp add: sell_iteration_raises)

text \<open>
  C1 (the code departs from the claim). The claim: for every open position the
  run blocks until the wall clock reaches the close time of the position's
  exchange (the NYSE one for an unlisted exchange) and only then submits the
  sell order. In the code, for every exchange, the pair unpacked from the market
  times is the two keys, the wait raises TypeError on its first evaluation of
  the loop condition with the world unchanged (no pause, no order), and so does
  the whole pass of the sell loop over the position.
\<close>

theorem close_wait_raises:
  "(\<exists>d. get_market_times exchange = Inr d \<and> unpack2 d = Inr (PStr ''open'', PStr ''close''))
   \<and> wait_for_close (PStr ''close'') w = Some (Inl TypeError, w)
   \<and> sell_iteration env market_price (contract, quantity, exchange) total_profit w
       = Some (Inl TypeError, w)"
  using get_market_times_keys [of exchange]
  by (simp add: wait_for_close_key sell_iteration_raises)

text \<open>
  C2 (the code departs from the claim). The claim: every position appended in
  the buy phase is matched by exactly one sell order before the run ends. In the
  sample run with net liquidation value 10000 and both buy orders filled, two
  positions are bought (19 AAPL, 52 SHOP) and the run ends with TypeError
  without a single sell order.
\<close>

theorem run_with_positions_never_sells:
  "main (demo_env 0 0 10000 ''Filled'') w0 =
     Some (Inl TypeError,
       \<lparr>clock = 6,
        trace =
          [IBConnect, Log ClosedAll, HttpGet,
           QualifyContracts (Stock ''AAPL'' ''SMART'' ''USD''),
           ReqMktData (Stock ''AAPL'' ''SMART'' ''USD''), Sleep 1,
           PlaceOrder (Stock ''AAPL'' ''SMART'' ''USD'') (MarketOrder ''BUY'' 19), Sleep 2,
           QualifyContracts (Stock ''SHOP'' ''SMART'' ''USD''),
           ReqMktData (Stock ''SHOP'' ''SMART'' ''USD''), Sleep 1,
           PlaceOrder (Stock ''SHOP'' ''SMART'' ''USD'') (MarketOrder ''BUY'' 52), Sleep 2]\<rparr>)"
  by (simp add: main_def connect_ib_def close_all_positions_def fetch_trending_stocks_def
      get_available_funds_def py_truediv_def buy_iteration_def pick_price_def share_quantity_def
      py_int_def placeOrder_def orders_placed_def sleep_def emit_def log_message_def
      parse_response_def demo_env_def flaky_source_def late_connect_def demo_prices_def
      demo_status_def two_tickers_def w0_def upt_rec sell_iteration_raises Let_def)

section \<open>Bounded retries\<close>

lemma fetch_attempts_success:
  assumes "\<forall>k \<in> set ks. isl (parse_response (trend_source env k))"
    and "parse_response (trend_source env n) = Inr stocks"
  shows "fetch_attempts env delay (ks @ n # rest) w =
           (Inr stocks,
            w\<lparr>clock := clock w + length ks * delay,
              trace := trace w @ concat (map (failed_attempt env delay) ks) @ [HttpGet]\<rparr>)"
  using assms
proof (induction ks arbitrary: w)
  case Nil
  then show ?case by (simp add: emit_def)
next
  case (Cons k ks)
  then obtain e where e: "parse_response (trend_source env k) = Inl e"
    by (cases "parse_response (trend_source env k)") auto
  from Cons show ?case
    by (simp add: e failed_attempt_def sleep_def emit_def log_message_def)
qed

lemma fetch_attempts_exhausted:
  assumes "\<forall>k \<in> set ks. isl (parse_response (trend_source env k))"
  shows "fetch_attempts env delay ks w =
           (Inl (Exception ''Failed to fetch trending stocks after multiple attempts.''),
            w\<lparr>clock := clock w + length ks * delay,
              trace := trace w @ concat (map (failed_attempt env delay) ks)\<rparr>)"
  using assms
proof (induction ks arbitrary: w)
  case Nil
  then show ?case by simp
next
  case (Cons k ks)
  then obtain e where e: "parse_response (trend_source env k) = Inl e"
    by (cases "parse_response (trend_source env k)") auto
  from Cons show ?case
    by (simp add: e failed_attempt_def sleep_def emit_def log_message_def)
qed

lemma count_failed_attempts:
  "count_list (concat (map (failed_attempt env delay) ks)) HttpGet = length ks"
  by (induction ks) (simp_all add: failed_attempt_def)

lemma connect_attempts_exhausted:
  assumes "\<forall>k \<in> set ks. \<not> connect_ok env k"
  shows "connect_attempts env ks w =
           (Inl (Exception ''Failed to connect to Interactive Brokers after multiple attempts.''),
            w\<lparr>clock := clock w + length ks * 5,
              trace := trace w @ concat (replicate (length ks) [IBConnect, Log ConnectFailed, Sleep 5])\<rparr>)"
  using assms
  by (induction ks arbitrary: w) (simp_all add: sleep_def emit_def log_message_def)

lemma connect_attempts_filter:
  assumes "\<not> P IBConnect" "\<And>m. \<not> P (Log m)" "\<And>d. \<not> P (Sleep d)"
  shows "filter P (trace (snd (connect_attempts env ks w))) = filter P (trace w)"
  using assms
  by (induction ks arbitrary: w) (simp_all add: sleep_def emit_def log_message_def Let_def)

lemma fetch_attempts_filter:
  assumes "\<not> P HttpGet" "\<And>m. \<not> P (Log m)" "\<And>d. \<not> P (Sleep d)"
  shows "filter P (trace (snd (fetch_attempts env delay ks w))) = filter P (trace w)"
  using assms
  by (induction ks arbitrary: w)
    (simp_all add: sleep_def emit_def log_message_def Let_def split: sum.splits)

lemma close_positions_filter_buy:
  "filter is_buy (trace (close_positions ps w)) = filter is_buy (trace w)"
  by (induction ps arbitrary: w) (simp_all add: emit_def)

lemma close_all_positions_filter_buy:
  "filter is_buy (trace (close_all_positions env w)) = filter is_buy (trace w)"
  by (simp add: close_all_positions_def log_message_def emit_def close_positions_filter_buy)

text \<open>
  C6, as amended. For N failing attempts followed by a successful one with
  N < retries (the claim has N \<le> retries), \<open>fetch_trending_stocks\<close> returns the
  successful attempt's result; the trace gains, for each failed attempt, the call,
  the log line and a pause of \<open>delay\<close> seconds, and then the call that
  succeeds: N + 1 calls in all, with the pause between consecutive ones.
\<close>

theorem fetch_returns_first_success:
  assumes "N < retries"
    and "\<forall>k<N. isl (parse_response (trend_source env k))"
    and "parse_response (trend_source env N) = Inr stocks"
  shows "fetch_trending_stocks env retries delay w =
           (Inr stocks,
            w\<lparr>clock := clock w + N * delay,
              trace := trace w @ concat (map (failed_attempt env delay) [0..<N]) @ [HttpGet]\<rparr>)
         \<and> count_list (trace (snd (fetch_trending_stocks env retries delay w))) HttpGet
             = count_list (trace w) HttpGet + N + 1"
proof -
  have "[0..<retries] = [0..<N] @ [N..<retries]"
    using assms(1) upt_add_eq_append [of 0 N "retries - N"] by simp
  moreover have "[N..<retries] = N # [Suc N..<retries]"
    using assms(1) by (simp add: upt_conv_Cons)
  ultimately have split: "[0..<retries] = [0..<N] @ N # [Suc N..<retries]"
    by simp
  have fails: "\<forall>k \<in> set [0..<N]. isl (parse_response (trend_source env k))"
    using assms(2) by simp
  have run: "fetch_trending_stocks env retries delay w =
           (Inr stocks,
            w\<lparr>clock := clock w + N * delay,
              trace := trace w @ concat (map (failed_attempt env delay) [0..<N]) @ [HttpGet]\<rparr>)"
    unfolding fetch_trending_stocks_def split
    using fetch_attempts_success [OF fails assms(3)] by simp
  show ?thesis
    by (simp add: run count_failed_attempts)
qed


text \<open>
  The scenario of two failures followed by a success, with three attempts allowed
  and no delay: three calls, and the third call's data is returned.
\<close>

theorem fetch_returns_first_success_witness:
  "(2::nat) < 3
   \<and> parse_response (trend_source (demo_env 2 0 10000 ''Filled'') 2) = Inr two_tickers
   \<and> fetch_trending_stocks (demo_env 2 0 10000 ''Filled'') 3 0 w0 =
        (Inr two_tickers,
         \<lparr>clock = 0,
          trace = [HttpGet, Log (FetchFailed RequestException 0), Sleep 0,
                   HttpGet, Log (FetchFailed RequestException 0), Sleep 0,
                   HttpGet]\<rparr>)"
proof -
  have h1: "(2::nat) < 3" by simp
  have h2: "\<forall>k<2. isl (parse_response (trend_source (demo_env 2 0 10000 ''Filled'') k))"
    by (simp add: demo_env_def flaky_source_def parse_response_def)
  have h3: "parse_response (trend_source (demo_env 2 0 10000 ''Filled'') 2) = Inr two_tickers"
    by (simp add: demo_env_def flaky_source_def parse_response_def two_tickers_def)
  show ?thesis
    using fetch_returns_first_success [OF h1 h2 h3, of 0 w0] h3
    by (simp add: failed_attempt_def upt_rec w0_def demo_env_def flaky_source_def
        parse_response_def)
qed

text \<open>
  C6 as stated fails at N = retries: with three attempts allowed, three failures
  and a source that would answer the fourth call, the function raises after the
  third call and the fourth is never made.
\<close>

theorem fetch_after_max_failures_counterexample:
  "parse_response (trend_source (demo_env 3 0 10000 ''Filled'') 3) = Inr two_tickers
   \<and> fetch_trending_stocks (demo_env 3 0 10000 ''Filled'') 3 0 w0 =
        (Inl (Exception ''Failed to fetch trending stocks after multiple attempts.''),
         \<lparr>clock = 0,
          trace = [HttpGet, Log (FetchFailed RequestException 0), Sleep 0,
                   HttpGet, Log (FetchFailed RequestException 0), Sleep 0,
                   HttpGet, Log (FetchFailed RequestException 0), Sleep 0]\<rparr>)"
  by (simp add: fetch_trending_stocks_def upt_rec w0_def demo_env_def flaky_source_def
      parse_response_def two_tickers_def sleep_def emit_def log_message_def)

lemma main_connect_exhausted:
  assumes "\<forall>k<3. \<not> connect_ok env k"
  shows "main env w =
           Some (Inl (Exception ''Failed to connect to Interactive Brokers after multiple attempts.''),
                 snd (connect_ib env w))"
    and "fst (connect_ib env w) =
           Inl (Exception ''Failed to connect to Interactive Brokers after multiple attempts.'')"
    and "count_list (trace (snd (connect_ib env w))) IBConnect = count_list (trace w) IBConnect + 3"
proof -
  have fails: "\<forall>k \<in> set [0..<3]. \<not> connect_ok env k"
    using assms by simp
  note run = connect_attempts_exhausted [OF fails, of w]
  show "fst (connect_ib env w) =
           Inl (Exception ''Failed to connect to Interactive Brokers after multiple attempts.'')"
    by (simp add: connect_ib_def run)
  show "main env w =
           Some (Inl (Exception ''Failed to connect to Interactive Brokers after multiple attempts.''),
                 snd (connect_ib env w))"
    by (simp add: main_def connect_ib_def run)
  have "trace (snd (connect_ib env w)) =
          trace w @ concat (replicate 3 [IBConnect, Log ConnectFailed, Sleep 5])"
    by (simp add: connect_ib_def run)
  then show "count_list (trace (snd (connect_ib env w))) IBConnect = count_list (trace w) IBConnect + 3"
    by (simp add: numeral_3_eq_3)
qed

lemma connect_ib_filter:
  assumes "\<not> P IBConnect" "\<And>m. \<not> P (Log m)" "\<And>d. \<not> P (Sleep d)"
  shows "filter P (trace (snd (connect_ib env w))) = filter P (trace w)"
  unfolding connect_ib_def using assms by (rule connect_attempts_filter)

lemma main_fetch_exhausted:
  assumes "\<forall>k<3. isl (parse_response (trend_source env k))"
  shows "\<exists>e w'. main env w = Some (Inl e, w') \<and> filter is_buy (trace w') = filter is_buy (trace w)"
proof (cases "connect_ib env w")
  case (Pair r w1)
  have c: "filter is_buy (trace w1) = filter is_buy (trace w)"
    using connect_ib_filter [of is_buy env w] Pair by simp
  show ?thesis
  proof (cases r)
    case (Inl e)
    with Pair c show ?thesis by (simp add: main_def)
  next
    case (Inr u)
    have fails: "\<forall>k \<in> set [0..<3]. isl (parse_response (trend_source env k))"
      using assms by simp
    obtain w3 where f: "fetch_trending_stocks env 3 5 (close_all_positions env w1) =
               (Inl (Exception ''Failed to fetch trending stocks after multiple attempts.''), w3)"
      by (simp add: fetch_trending_stocks_def fetch_attempts_exhausted [OF fails])
    have "filter is_buy (trace (snd (fetch_trending_stocks env 3 5 (close_all_positions env w1))))
            = filter is_buy (trace w)"
      unfolding fetch_trending_stocks_def
      by (simp add: fetch_attempts_filter close_all_positions_filter_buy c)
    then have "filter is_buy (trace w3) = filter is_buy (trace w)"
      by (simp add: f)
    moreover have "main env w =
        Some (Inl (Exception ''Failed to fetch trending stocks after multiple attempts.''), w3)"
      using Pair Inr f by (simp add: main_def)
    ultimately show ?thesis by blast
  qed
qed

text \<open>
  C7. When all \<open>retries\<close> attempts fail, \<open>fetch_trending_stocks\<close> raises its
  terminal error after exactly \<open>retries\<close> calls; when the three connection
  attempts fail, \<open>connect_ib\<close> raises its terminal error after exactly three
  calls and the run ends with that error without any order placed; and when the
  three fetch attempts of a run fail, the run ends with an error and no buy
  order has been placed.
\<close>

theorem retry_exhaustion_aborts:
  "((\<forall>k<retries. isl (parse_response (trend_source env k))) \<longrightarrow>
      fst (fetch_trending_stocks env retries delay w) =
        Inl (Exception ''Failed to fetch trending stocks after multiple attempts.'')
      \<and> count_list (trace (snd (fetch_trending_stocks env retries delay w))) HttpGet
          = count_list (trace w) HttpGet + retries)
   \<and> ((\<forall>k<3. \<not> connect_ok env k) \<longrightarrow>
      fst (connect_ib env w) =
        Inl (Exception ''Failed to connect to Interactive Brokers after multiple attempts.'')
      \<and> count_list (trace (snd (connect_ib env w))) IBConnect = count_list (trace w) IBConnect + 3
      \<and> (\<exists>w'. main env w =
             Some (Inl (Exception ''Failed to connect to Interactive Brokers after multiple attempts.''), w')
           \<and> filter is_order (trace w') = filter is_order (trace w)))
   \<and> ((\<forall>k<3. isl (parse_response (trend_source env k))) \<longrightarrow>
      (\<exists>e w'. main env w = Some (Inl e, w') \<and> filter is_buy (trace w') = filter is_buy (trace w)))"
proof (intro conjI impI)
  assume a: "\<forall>k<retries. isl (parse_response (trend_source env k))"
  then have fails: "\<forall>k \<in> set [0..<retries]. isl (parse_response (trend_source env k))"
    by simp
  note run = fetch_attempts_exhausted [OF fails, of delay w]
  show "fst (fetch_trending_stocks env retries delay w) =
        Inl (Exception ''Failed to fetch trending stocks after multiple attempts.'')"
    by (simp add: fetch_trending_stocks_def run)
  show "count_list (trace (snd (fetch_trending_stocks env retries delay w))) HttpGet
          = count_list (trace w) HttpGet + retries"
    by (simp add: fetch_trending_stocks_def run count_failed_attempts)
next
  assume a: "\<forall>k<3. \<not> connect_ok env k"
  show "fst (connect_ib env w) =
        Inl (Exception ''Failed to connect to Interactive Brokers after multiple attempts.'')"
    using main_connect_exhausted(2) [OF a] .
  show "count_list (trace (snd (connect_ib env w))) IBConnect = count_list (trace w) IBConnect + 3"
    using main_connect_exhausted(3) [OF a] .
  have "filter is_order (trace (snd (connect_ib env w))) = filter is_order (trace w)"
    by (rule connect_ib_filter) simp_all
  with main_connect_exhausted(1) [OF a, of w]
  show "\<exists>w'. main env w =
             Some (Inl (Exception ''Failed to connect to Interactive Brokers after multiple attempts.''), w')
           \<and> filter is_order (trace w') = filter is_order (trace w)"
    by blast
next
  assume "\<forall>k<3. isl (parse_response (trend_source env k))"
  then show "\<exists>e w'. main env w = Some (Inl e, w') \<and> filter is_buy (trace w') = filter is_buy (trace w)"
    by (rule main_fetch_exhausted)
qed


text \<open>
  A run whose trend data source fails three times, and a run whose broker
  refuses three connections.
\<close>

theorem retry_exhaustion_aborts_witness:
  "isl (parse_response (trend_source (demo_env 3 0 10000 ''Filled'') 0))
   \<and> isl (parse_response (trend_source (demo_env 3 0 10000 ''Filled'') 1))
   \<and> isl (parse_response (trend_source (demo_env 3 0 10000 ''Filled'') 2))
   \<and> fst (fetch_trending_stocks (demo_env 3 0 10000 ''Filled'') 3 5 w0) =
        Inl (Exception ''Failed to fetch trending stocks after multiple attempts.'')
   \<and> count_list (trace (snd (fetch_trending_stocks (demo_env 3 0 10000 ''Filled'') 3 5 w0))) HttpGet = 3
   \<and> (\<exists>e w'. main (demo_env 3 0 10000 ''Filled'') w0 = Some (Inl e, w')
          \<and> filter is_buy (trace w') = [])
   \<and> \<not> connect_ok (demo_env 0 3 10000 ''Filled'') 0
   \<and> \<not> connect_ok (demo_env 0 3 10000 ''Filled'') 1
   \<and> \<not> connect_ok (demo_env 0 3 10000 ''Filled'') 2
   \<and> fst (connect_ib (demo_env 0 3 10000 ''Filled'') w0) =
        Inl (Exception ''Failed to connect to Interactive Brokers after multiple attempts.'')
   \<and> count_list (trace (snd (connect_ib (demo_env 0 3 10000 ''Filled'') w0))) IBConnect = 3
   \<and> (\<exists>w'. main (demo_env 0 3 10000 ''Filled'') w0 =
          Some (Inl (Exception ''Failed to connect to Interactive Brokers after multiple attempts.''), w')
          \<and> filter is_order (trace w') = [])"
proof -
  have f: "\<forall>k<3. isl (parse_response (trend_source (demo_env 3 0 10000 ''Filled'') k))"
    by (simp add: demo_env_def flaky_source_def parse_response_def)
  have c: "\<forall>k<3. \<not> connect_ok (demo_env 0 3 10000 ''Filled'') k"
    by (simp add: demo_env_def late_connect_def)
  have t0: "trace w0 = []"
    by (simp add: w0_def)
  show ?thesis
    using retry_exhaustion_aborts [of 3 "demo_env 3 0 10000 ''Filled''" 5 w0]
      retry_exhaustion_aborts [of 3 "demo_env 0 3 10000 ''Filled''" 5 w0] f c
    by (simp add: t0)
qed

section \<open>The buy loop and the sale of a position\<close>

lemma buy_iteration_skip:
  assumes "share_quantity a (pick_price (market_data_of env (Stock stock ''SMART'' ''USD''))) \<le> 0"
  shows "buy_iteration env a (stock, exchange) (mp, positions) w =
           ((Some (pick_price (market_data_of env (Stock stock ''SMART'' ''USD''))), positions),
            sleep 1 (emit (ReqMktData (Stock stock ''SMART'' ''USD''))
              (emit (QualifyContracts (Stock stock ''SMART'' ''USD'')) w)))"
  using assms by (simp add: buy_iteration_def Let_def)

lemma buy_iteration_buy:
  assumes "0 < share_quantity a (pick_price (market_data_of env (Stock stock ''SMART'' ''USD'')))"
  shows "fst (buy_iteration env a (stock, exchange) (mp, positions) w) =
           (Some (pick_price (market_data_of env (Stock stock ''SMART'' ''USD''))),
            positions @ [(Stock stock ''SMART'' ''USD'',
              share_quantity a (pick_price (market_data_of env (Stock stock ''SMART'' ''USD''))),
              exchange)])"
    and "trace (snd (buy_iteration env a (stock, exchange) (mp, positions) w)) =
           trace w @
           [QualifyContracts (Stock stock ''SMART'' ''USD''),
            ReqMktData (Stock stock ''SMART'' ''USD''), Sleep 1,
            PlaceOrder (Stock stock ''SMART'' ''USD'')
              (MarketOrder ''BUY'' (of_int (share_quantity a
                 (pick_price (market_data_of env (Stock stock ''SMART'' ''USD'')))))),
            Sleep 2] @
           (if status (order_result env (orders_placed w)) \<in> set [''Filled'', ''Submitted'']
            then []
            else [Log (OrderFailed stock (status (order_result env (orders_placed w))))])"
  using assms
  by (simp_all add: buy_iteration_def Let_def placeOrder_def orders_placed_def sleep_def
      emit_def log_message_def)

lemma buy_loop_skip:
  assumes "\<forall>se \<in> set stocks.
             share_quantity a (pick_price (market_data_of env (Stock (fst se) ''SMART'' ''USD''))) \<le> 0"
  shows "snd (fst (buy_loop env a stocks (mp, positions) w)) = positions
         \<and> filter is_order (trace (snd (buy_loop env a stocks (mp, positions) w)))
             = filter is_order (trace w)"
  using assms
proof (induction stocks arbitrary: mp w)
  case Nil
  then show ?case by simp
next
  case (Cons se rest)
  obtain stock exchange where se: "se = (stock, exchange)"
    by (cases se)
  from Cons.prems have q:
    "share_quantity a (pick_price (market_data_of env (Stock stock ''SMART'' ''USD''))) \<le> 0"
    by (simp add: se)
  from Cons.prems have rest:
    "\<forall>se \<in> set rest.
       share_quantity a (pick_price (market_data_of env (Stock (fst se) ''SMART'' ''USD''))) \<le> 0"
    by simp
  show ?case
    using Cons.IH [OF rest]
    by (simp add: se buy_iteration_skip [OF q] sleep_def emit_def Let_def)
qed

lemma fetch_attempts_nonempty:
  "fetch_attempts env delay ks w = (Inr stocks, w') \<Longrightarrow> stocks \<noteq> []"
  by (induction ks arbitrary: w)
    (auto simp: Let_def parse_response_def split: sum.splits response.splits if_splits)

lemma sell_position_trace:
  "trace (snd (sell_position env market_price contract quantity total_profit w)) =
     trace w @ [PlaceOrder contract (MarketOrder ''SELL'' (of_int quantity)), Sleep 2]"
  by (simp add: sell_position_def Let_def placeOrder_def sleep_def emit_def split: option.splits)


lemma main_all_skipped:
  assumes c: "connect_ib env w = (Inr u, w1)"
    and f: "fetch_trending_stocks env 3 5 (close_all_positions env w1) = (Inr stocks, w3)"
    and q: "\<forall>se \<in> set stocks.
             share_quantity (get_available_funds env 0 / of_nat (length stocks))
               (pick_price (market_data_of env (Stock (fst se) ''SMART'' ''USD''))) \<le> 0"
  shows "\<exists>w'. main env w = Some (Inr (0, 0, 0), w')
              \<and> filter is_order (trace w') = filter is_order (trace w3)"
proof -
  have ne: "stocks \<noteq> []"
    using f fetch_attempts_nonempty by (simp add: fetch_trending_stocks_def)
  define a where "a = get_available_funds env 0 / of_nat (length stocks)"
  have d: "py_truediv (get_available_funds env 0) (length stocks) = Inr a"
    using ne by (simp add: py_truediv_def a_def)
  obtain mp w4 where b: "buy_loop env a stocks (None, []) w3 = ((mp, []), w4)"
    and t: "filter is_order (trace w4) = filter is_order (trace w3)"
    using buy_loop_skip [OF q [folded a_def], of None "[]" w3]
    by (cases "buy_loop env a stocks (None, []) w3") auto
  show ?thesis
    by (simp add: main_def c f d b t reserve_accrual_def log_message_def emit_def)
qed


lemma buy_iteration_events:
  "\<exists>evs. trace (snd (buy_iteration env a se st w)) = trace w @ evs \<and> list_all on_smart_usd evs"
  by (simp add: buy_iteration_def Let_def placeOrder_def sleep_def emit_def log_message_def)

lemma buy_loop_events:
  "\<exists>evs. trace (snd (buy_loop env a stocks st w)) = trace w @ evs \<and> list_all on_smart_usd evs"
proof (induction stocks arbitrary: st w)
  case Nil
  then show ?case by simp
next
  case (Cons se rest)
  obtain evs1 where 1: "trace (snd (buy_iteration env a se st w)) = trace w @ evs1"
    and s1: "list_all on_smart_usd evs1"
    using buy_iteration_events by blast
  obtain evs2 where 2: "trace (snd (buy_loop env a rest (fst (buy_iteration env a se st w))
        (snd (buy_iteration env a se st w)))) = trace (snd (buy_iteration env a se st w)) @ evs2"
    and s2: "list_all on_smart_usd evs2"
    using Cons.IH by blast
  have "trace (snd (buy_loop env a (se # rest) st w)) = trace w @ (evs1 @ evs2)"
    by (simp add: Let_def 1 2)
  moreover have "list_all on_smart_usd (evs1 @ evs2)"
    using s1 s2 by simp
  ultimately show ?case by blast
qed

lemma buy_iteration_positions:
  assumes "\<forall>p \<in> set (snd st). contract_exchange (fst p) = ''SMART'' \<and> contract_currency (fst p) = ''USD''"
  shows "\<forall>p \<in> set (snd (fst (buy_iteration env a se st w))).
           contract_exchange (fst p) = ''SMART'' \<and> contract_currency (fst p) = ''USD''"
  using assms by (simp add: buy_iteration_def Let_def)

lemma buy_loop_positions:
  assumes "\<forall>p \<in> set (snd st). contract_exchange (fst p) = ''SMART'' \<and> contract_currency (fst p) = ''USD''"
  shows "\<forall>p \<in> set (snd (fst (buy_loop env a stocks st w))).
           contract_exchange (fst p) = ''SMART'' \<and> contract_currency (fst p) = ''USD''"
  using assms
proof (induction stocks arbitrary: st w)
  case Nil
  then show ?case by simp
next
  case (Cons se rest)
  show ?case
    using Cons.IH [OF buy_iteration_positions [OF Cons.prems]]
    by (simp add: Let_def)
qed

lemma buy_iteration_exchange_irrelevant:
  assumes "fst se' = fst se"
    and "map (\<lambda>p. (fst p, fst (snd p))) (snd st') = map (\<lambda>p. (fst p, fst (snd p))) (snd st)"
  shows "snd (buy_iteration env a se' st' w) = snd (buy_iteration env a se st w)"
    and "map (\<lambda>p. (fst p, fst (snd p))) (snd (fst (buy_iteration env a se' st' w)))
           = map (\<lambda>p. (fst p, fst (snd p))) (snd (fst (buy_iteration env a se st w)))"
  using assms by (simp_all add: buy_iteration_def Let_def)

lemma buy_loop_exchange_irrelevant:
  assumes "map fst stocks' = map fst stocks"
    and "map (\<lambda>p. (fst p, fst (snd p))) (snd st') = map (\<lambda>p. (fst p, fst (snd p))) (snd st)"
  shows "snd (buy_loop env a stocks' st' w) = snd (buy_loop env a stocks st w)
         \<and> map (\<lambda>p. (fst p, fst (snd p))) (snd (fst (buy_loop env a stocks' st' w)))
           = map (\<lambda>p. (fst p, fst (snd p))) (snd (fst (buy_loop env a stocks st w)))"
  using assms
proof (induction stocks arbitrary: stocks' st st' w)
  case Nil
  then show ?case by simp
next
  case (Cons se rest)
  then obtain se' rest' where s: "stocks' = se' # rest'" and h: "fst se' = fst se"
    and r: "map fst rest' = map fst rest"
    by (cases stocks') auto
  note it = buy_iteration_exchange_irrelevant [OF h Cons.prems(2), of env a w]
  show ?case
    using Cons.IH [OF r it(2)] by (simp add: s Let_def it(1))
qed

section \<open>The sell loop and share quantities\<close>

text \<open>
  C3 (the code departs from the claim). The claim: in the sell loop a sell order
  reported Filled adds (avgFillPrice - market_price) * quantity to the total
  profit, any other status adds nothing, and the position is closed either way.
  In the code the sell loop over a non-empty list of positions raises TypeError
  in its first pass, whatever the broker would report, with the world unchanged:
  no sell order is placed and nothing is added. So it is for a position of 20
  AAPL shares whose sale would be filled at 260 against a price of 250, where
  the claim has 200 added.
\<close>

theorem sell_loop_books_nothing:
  "sell_loop env market_price (pos # rest) total_profit w = Some (Inl TypeError, w)
   \<and> status (order_result (demo_env 0 0 10000 ''Filled'') (orders_placed w0)) = ''Filled''
   \<and> avgFillPrice (order_result (demo_env 0 0 10000 ''Filled'') (orders_placed w0)) = 260
   \<and> sell_loop (demo_env 0 0 10000 ''Filled'') (Some 250)
         [(Stock ''AAPL'' ''SMART'' ''USD'', 20, ''NASDAQ'')] 0 w0 = Some (Inl TypeError, w0)"
  by (simp add: sell_iteration_raises demo_env_def demo_status_def)

text \<open>
  C4, as amended. For a positive price the quantity is budget / price truncated
  toward zero: its floor when the budget is not negative (the claim's formula),
  its ceiling when the budget is negative; for a price that is not positive it is
  0. A ticker whose quantity is not positive gets no buy order and no position:
  the pass only qualifies the contract, requests market data and pauses. When
  the connection and the fetch succeed and no ticker has a positive quantity,
  the run completes with total profit 0, daily reserve 0 and reserve fund 0, and
  places no order after the fetch.
\<close>

theorem share_quantity_truncates_and_skips:
  "(0 < price \<longrightarrow>
      share_quantity budget price =
        (if 0 \<le> budget then \<lfloor>budget / price\<rfloor> else \<lceil>budget / price\<rceil>))
   \<and> (price \<le> 0 \<longrightarrow> share_quantity budget price = 0)
   \<and> (share_quantity a (pick_price (market_data_of env (Stock stock ''SMART'' ''USD''))) \<le> 0 \<longrightarrow>
        buy_iteration env a (stock, exchange) (mp, positions) w =
          ((Some (pick_price (market_data_of env (Stock stock ''SMART'' ''USD''))), positions),
           sleep 1 (emit (ReqMktData (Stock stock ''SMART'' ''USD''))
             (emit (QualifyContracts (Stock stock ''SMART'' ''USD'')) w))))
   \<and> (connect_ib env w = (Inr u, w1)
        \<and> fetch_trending_stocks env 3 5 (close_all_positions env w1) = (Inr stocks, w3)
        \<and> (\<forall>se \<in> set stocks.
             share_quantity (get_available_funds env 0 / of_nat (length stocks))
               (pick_price (market_data_of env (Stock (fst se) ''SMART'' ''USD''))) \<le> 0) \<longrightarrow>
        (\<exists>w'. main env w = Some (Inr (0, 0, 0), w')
              \<and> filter is_order (trace w') = filter is_order (trace w3)))"
proof (intro conjI impI)
  assume "0 < price"
  then show "share_quantity budget price =
        (if 0 \<le> budget then \<lfloor>budget / price\<rfloor> else \<lceil>budget / price\<rceil>)"
    by (simp add: share_quantity_def py_int_def zero_le_divide_iff)
next
  assume "price \<le> 0"
  then show "share_quantity budget price = 0"
    by (simp add: share_quantity_def)
next
  assume "share_quantity a (pick_price (market_data_of env (Stock stock ''SMART'' ''USD''))) \<le> 0"
  then show "buy_iteration env a (stock, exchange) (mp, positions) w =
          ((Some (pick_price (market_data_of env (Stock stock ''SMART'' ''USD''))), positions),
           sleep 1 (emit (ReqMktData (Stock stock ''SMART'' ''USD''))
             (emit (QualifyContracts (Stock stock ''SMART'' ''USD'')) w)))"
    by (rule buy_iteration_skip)
next
  assume "connect_ib env w = (Inr u, w1)
        \<and> fetch_trending_stocks env 3 5 (close_all_positions env w1) = (Inr stocks, w3)
        \<and> (\<forall>se \<in> set stocks.
             share_quantity (get_available_funds env 0 / of_nat (length stocks))
               (pick_price (market_data_of env (Stock (fst se) ''SMART'' ''USD''))) \<le> 0)"
  then show "\<exists>w'. main env w = Some (Inr (0, 0, 0), w')
              \<and> filter is_order (trace w') = filter is_order (trace w3)"
    using main_all_skipped by blast
qed

text \<open>
  C4 as stated fails for a negative budget: with budget -3 and price 2 the code
  computes -1, and the floor of -3/2 is -2.
\<close>

theorem share_quantity_floor_counterexample:
  "share_quantity (- 3) 2 = - 1 \<and> \<lfloor>(- 3) / (2::real)\<rfloor> = - 2"
  by (simp add: share_quantity_def py_int_def)

text \<open>
  The quantities of the scenario with budget 5000 (20 and 55 shares), a negative
  budget, a negative price, and a run with net liquidation value 0.
\<close>

theorem share_quantity_truncates_and_skips_witness:
  "share_quantity 5000 250 = 20
   \<and> share_quantity 5000 90 = 55
   \<and> share_quantity (- 3) 2 = - 1
   \<and> share_quantity 5000 (- 1) = 0
   \<and> snd (fst (buy_iteration (demo_env 0 0 0 ''Filled'') 0 (''AAPL'', ''NASDAQ'') (None, []) w0)) = []
   \<and> (\<exists>w'. main (demo_env 0 0 0 ''Filled'') w0 = Some (Inr (0, 0, 0), w')
          \<and> filter is_order (trace w') = [])"
proof -
  let ?E = "demo_env 0 0 0 ''Filled''"
  let ?w1 = "\<lparr>clock = 0, trace = [IBConnect]\<rparr>"
  let ?w3 = "\<lparr>clock = 0, trace = [IBConnect, Log ClosedAll, HttpGet]\<rparr>"
  have c: "connect_ib ?E w0 = (Inr (), ?w1)"
    by (simp add: connect_ib_def upt_rec demo_env_def late_connect_def emit_def w0_def)
  have f: "fetch_trending_stocks ?E 3 5 (close_all_positions ?E ?w1) = (Inr two_tickers, ?w3)"
    by (simp add: fetch_trending_stocks_def upt_rec close_all_positions_def demo_env_def
        flaky_source_def parse_response_def two_tickers_def emit_def log_message_def)
  have q: "\<forall>se \<in> set two_tickers.
             share_quantity (get_available_funds ?E 0 / of_nat (length two_tickers))
               (pick_price (market_data_of ?E (Stock (fst se) ''SMART'' ''USD''))) \<le> 0"
    by (simp add: two_tickers_def get_available_funds_def demo_env_def share_quantity_def
        py_int_def)
  have q1: "share_quantity 0 (pick_price (market_data_of ?E (Stock ''AAPL'' ''SMART'' ''USD''))) \<le> 0"
    by (simp add: share_quantity_def py_int_def)
  show ?thesis
    using share_quantity_truncates_and_skips [where price = 250 and budget = 5000]
      share_quantity_truncates_and_skips [where price = 90 and budget = 5000]
      share_quantity_truncates_and_skips [where price = 2 and budget = "- 3"]
      share_quantity_truncates_and_skips [where price = "- 1" and budget = 5000]
      share_quantity_truncates_and_skips [where env = ?E and a = 0 and stock = "''AAPL''"
        and exchange = "''NASDAQ''" and mp = None and positions = "[]" and w = w0]
      share_quantity_truncates_and_skips [where env = ?E and w = w0 and u = "()"
        and ?w1.0 = ?w1 and stocks = two_tickers and ?w3.0 = ?w3]
      c f q q1
    by simp
qed

section \<open>Allocation, order status, reserve and contracts\<close>



text \<open>
  C8, as amended. For a ticker with a positive quantity the pass places the buy
  order and appends the position (contract, quantity, exchange), whatever status
  the order reports; when the status is neither Filled nor Submitted the pass
  also logs the failure, and in both cases it returns normally, so the loop goes
  on to the next ticker.
\<close>

theorem buy_records_position_whatever_status:
  assumes "0 < share_quantity a (pick_price (market_data_of env (Stock stock ''SMART'' ''USD'')))"
  shows "fst (buy_iteration env a (stock, exchange) (mp, positions) w) =
           (Some (pick_price (market_data_of env (Stock stock ''SMART'' ''USD''))),
            positions @ [(Stock stock ''SMART'' ''USD'',
              share_quantity a (pick_price (market_data_of env (Stock stock ''SMART'' ''USD''))),
              exchange)])
         \<and> trace (snd (buy_iteration env a (stock, exchange) (mp, positions) w)) =
           trace w @
           [QualifyContracts (Stock stock ''SMART'' ''USD''),
            ReqMktData (Stock stock ''SMART'' ''USD''), Sleep 1,
            PlaceOrder (Stock stock ''SMART'' ''USD'')
              (MarketOrder ''BUY'' (of_int (share_quantity a
                 (pick_price (market_data_of env (Stock stock ''SMART'' ''USD'')))))),
            Sleep 2] @
           (if status (order_result env (orders_placed w)) \<in> set [''Filled'', ''Submitted'']
            then []
            else [Log (OrderFailed stock (status (order_result env (orders_placed w))))])"
  using buy_iteration_buy [OF assms] by blast

text \<open>
  A cancelled buy of 20 AAPL shares: the failure is logged and the position is
  in the list.
\<close>

theorem buy_records_position_whatever_status_witness:
  "0 < share_quantity 5000
         (pick_price (market_data_of (demo_env 0 0 10000 ''Cancelled'') (Stock ''AAPL'' ''SMART'' ''USD'')))
   \<and> fst (buy_iteration (demo_env 0 0 10000 ''Cancelled'') 5000 (''AAPL'', ''NASDAQ'') (None, []) w0) =
        (Some 250, [(Stock ''AAPL'' ''SMART'' ''USD'', 20, ''NASDAQ'')])
   \<and> trace (snd (buy_iteration (demo_env 0 0 10000 ''Cancelled'') 5000 (''AAPL'', ''NASDAQ'') (None, []) w0)) =
        [QualifyContracts (Stock ''AAPL'' ''SMART'' ''USD''),
         ReqMktData (Stock ''AAPL'' ''SMART'' ''USD''), Sleep 1,
         PlaceOrder (Stock ''AAPL'' ''SMART'' ''USD'') (MarketOrder ''BUY'' 20),
         Sleep 2, Log (OrderFailed ''AAPL'' ''Cancelled'')]"
proof -
  have p: "pick_price (market_data_of (demo_env 0 0 10000 ''Cancelled'') (Stock ''AAPL'' ''SMART'' ''USD''))
            = 250"
    by (simp add: pick_price_def demo_env_def demo_prices_def)
  have q: "share_quantity 5000 250 = 20"
    by (simp add: share_quantity_def py_int_def)
  have h: "0 < share_quantity 5000
         (pick_price (market_data_of (demo_env 0 0 10000 ''Cancelled'') (Stock ''AAPL'' ''SMART'' ''USD'')))"
    by (simp add: p q)
  have s: "status (order_result (demo_env 0 0 10000 ''Cancelled'') (orders_placed w0)) = ''Cancelled''"
    by (simp add: demo_env_def demo_status_def)
  have t: "trace w0 = []"
    by (simp add: w0_def)
  show ?thesis
    using buy_records_position_whatever_status [OF h, where exchange = "''NASDAQ''"
        and mp = None and positions = "[]" and w = w0] h
    by (simp add: p q s t)
qed

text \<open>
  C8 as stated fails: the buy order comes back Cancelled, and the position is
  recorded all the same.
\<close>

theorem rejected_buy_still_recorded_counterexample:
  "status (order_result (demo_env 0 0 10000 ''Cancelled'') (orders_placed w0)) = ''Cancelled''
   \<and> snd (fst (buy_iteration (demo_env 0 0 10000 ''Cancelled'') 5000 (''AAPL'', ''NASDAQ'') (None, []) w0))
       = [(Stock ''AAPL'' ''SMART'' ''USD'', 20, ''NASDAQ'')]"
  by (simp add: buy_iteration_def pick_price_def share_quantity_def py_int_def demo_env_def
      demo_prices_def demo_status_def Let_def)

lemma sell_loop_completes:
  assumes "sell_loop env market_price positions total_profit w = Some (Inr total_profit', w')"
  shows "positions = [] \<and> total_profit' = total_profit \<and> w' = w"
  using assms by (cases positions) (simp_all add: sell_iteration_raises)

lemma main_profit_zero:
  assumes "main env w = Some (Inr (tp, dr, rf), w')"
  shows "tp = 0 \<and> dr = 0 \<and> rf = 0"
  using assms
  by (auto simp: main_def Let_def reserve_accrual_def split: prod.splits sum.splits option.splits
      dest!: sell_loop_completes)

text \<open>
  C9 (the code departs from the claim). The claim: the accrual yields a daily
  reserve of 0.25 * total profit for every total profit, and the reserve fund
  after the run is the prior one plus that amount, added once, at the end of the
  run. In the code a run that completes has total profit 0, daily reserve 0 and
  reserve fund 0: the accrual is reached only when nothing was bought. The
  sample run that buys 19 AAPL and 52 SHOP shares ends with TypeError before the
  accrual, so no reserve is computed, added or logged.
\<close>

theorem no_run_accrues_a_profit:
  "(main env w = Some (Inr (tp, dr, rf), w') \<longrightarrow> tp = 0 \<and> dr = 0 \<and> rf = 0)
   \<and> (\<exists>w'. main (demo_env 0 0 10000 ''Filled'') w0 = Some (Inl TypeError, w'))"
proof (rule conjI)
  show "main env w = Some (Inr (tp, dr, rf), w') \<longrightarrow> tp = 0 \<and> dr = 0 \<and> rf = 0"
    using main_profit_zero by blast
next
  show "\<exists>w'. main (demo_env 0 0 10000 ''Filled'') w0 = Some (Inl TypeError, w')"
    by (simp add: main_def connect_ib_def close_all_positions_def fetch_trending_stocks_def
        get_available_funds_def py_truediv_def buy_iteration_def pick_price_def
        share_quantity_def py_int_def placeOrder_def orders_placed_def sleep_def emit_def
        log_message_def parse_response_def demo_env_def flaky_source_def late_connect_def
        demo_prices_def demo_status_def two_tickers_def w0_def upt_rec sell_iteration_raises
        Let_def)
qed

text \<open>
  The run that completes: net liquidation value 0, nothing bought, a summary of
  three zeros.
\<close>

theorem no_run_accrues_a_profit_witness:
  "main (demo_env 0 0 0 ''Filled'') w0 =
       Some (Inr (0, 0, 0),
         \<lparr>clock = 2,
          trace =
            [IBConnect, Log ClosedAll, HttpGet,
             QualifyContracts (Stock ''AAPL'' ''SMART'' ''USD''),
             ReqMktData (Stock ''AAPL'' ''SMART'' ''USD''), Sleep 1,
             QualifyContracts (Stock ''SHOP'' ''SMART'' ''USD''),
             ReqMktData (Stock ''SHOP'' ''SMART'' ''USD''), Sleep 1,
             Log (DailySummary 0 0 0), IBDisconnect, Log TradingComplete]\<rparr>)"
proof -
  let ?W = "\<lparr>clock = 2,
          trace =
            [IBConnect, Log ClosedAll, HttpGet,
             QualifyContracts (Stock ''AAPL'' ''SMART'' ''USD''),
             ReqMktData (Stock ''AAPL'' ''SMART'' ''USD''), Sleep 1,
             QualifyContracts (Stock ''SHOP'' ''SMART'' ''USD''),
             ReqMktData (Stock ''SHOP'' ''SMART'' ''USD''), Sleep 1,
             Log (DailySummary 0 0 0), IBDisconnect, Log TradingComplete]\<rparr>"
  have m: "main (demo_env 0 0 0 ''Filled'') w0 = Some (Inr (0, 0, 0), ?W)"
    by (simp add: main_def connect_ib_def close_all_positions_def fetch_trending_stocks_def
        get_available_funds_def py_truediv_def buy_iteration_def pick_price_def
        share_quantity_def py_int_def sleep_def emit_def log_message_def parse_response_def
        demo_env_def flaky_source_def late_connect_def demo_prices_def two_tickers_def w0_def
        upt_rec reserve_accrual_def Let_def)
  show ?thesis
    using no_run_accrues_a_profit [where env = "demo_env 0 0 0 ''Filled''" and w = w0
        and tp = 0 and dr = 0 and rf = 0 and w' = ?W] m
    by simp
qed

text \<open>
  C10. Every order the buy loop places is on a contract with exchange SMART and
  currency USD, every position it records holds such a contract, and the sale of
  a position places its order on the position's contract. Two ticker lists with
  the same symbols and any exchange fields give the same world after the buy
  loop (the same calls and orders) and positions with the same contracts and
  quantities: the exchange field only travels with the position to the wait for
  the close.
\<close>

theorem orders_on_smart_usd:
  "(\<exists>evs. trace (snd (buy_loop env a stocks st w)) = trace w @ evs \<and> list_all on_smart_usd evs)
   \<and> (\<forall>p \<in> set (snd (fst (buy_loop env a stocks (mp, []) w))).
         contract_exchange (fst p) = ''SMART'' \<and> contract_currency (fst p) = ''USD'')
   \<and> trace (snd (sell_position env market_price contract quantity total_profit w)) =
        trace w @ [PlaceOrder contract (MarketOrder ''SELL'' (of_int quantity)), Sleep 2]
   \<and> (map fst stocks' = map fst stocks \<longrightarrow>
        snd (buy_loop env a stocks' (mp, []) w) = snd (buy_loop env a stocks (mp, []) w)
        \<and> map (\<lambda>p. (fst p, fst (snd p))) (snd (fst (buy_loop env a stocks' (mp, []) w)))
            = map (\<lambda>p. (fst p, fst (snd p))) (snd (fst (buy_loop env a stocks (mp, []) w))))"
proof (intro conjI impI)
  show "\<exists>evs. trace (snd (buy_loop env a stocks st w)) = trace w @ evs \<and> list_all on_smart_usd evs"
    by (rule buy_loop_events)
  show "\<forall>p \<in> set (snd (fst (buy_loop env a stocks (mp, []) w))).
         contract_exchange (fst p) = ''SMART'' \<and> contract_currency (fst p) = ''USD''"
    by (rule buy_loop_positions) simp
  show "trace (snd (sell_position env market_price contract quantity total_profit w)) =
        trace w @ [PlaceOrder contract (MarketOrder ''SELL'' (of_int quantity)), Sleep 2]"
    by (rule sell_position_trace)
next
  assume m: "map fst stocks' = map fst stocks"
  have e: "map (\<lambda>p. (fst p, fst (snd p))) (snd (mp, [])) = map (\<lambda>p. (fst p, fst (snd p))) (snd (mp, []))"
    by simp
  note r = buy_loop_exchange_irrelevant [OF m e, of env a w]
  from r show "snd (buy_loop env a stocks' (mp, []) w) = snd (buy_loop env a stocks (mp, []) w)"
    by blast
  from r show "map (\<lambda>p. (fst p, fst (snd p))) (snd (fst (buy_loop env a stocks' (mp, []) w)))
            = map (\<lambda>p. (fst p, fst (snd p))) (snd (fst (buy_loop env a stocks (mp, []) w)))"
    by blast
qed


text \<open>
  AAPL and SHOP listed under two different pairs of exchanges: the same two buy
  orders on SMART contracts in USD.
\<close>

theorem orders_on_smart_usd_witness:
  "map fst [(''AAPL'', ''LSE''), (''SHOP'', ''TSE'')] = map fst two_tickers
   \<and> snd (buy_loop (demo_env 0 0 10000 ''Filled'') 5000 [(''AAPL'', ''LSE''), (''SHOP'', ''TSE'')]
          (None, []) w0)
       = snd (buy_loop (demo_env 0 0 10000 ''Filled'') 5000 two_tickers (None, []) w0)
   \<and> snd (fst (buy_loop (demo_env 0 0 10000 ''Filled'') 5000 two_tickers (None, []) w0)) =
        [(Stock ''AAPL'' ''SMART'' ''USD'', 20, ''NASDAQ''),
         (Stock ''SHOP'' ''SMART'' ''USD'', 55, ''TSX'')]
   \<and> filter is_order
        (trace (snd (buy_loop (demo_env 0 0 10000 ''Filled'') 5000 two_tickers (None, []) w0))) =
        [PlaceOrder (Stock ''AAPL'' ''SMART'' ''USD'') (MarketOrder ''BUY'' 20),
         PlaceOrder (Stock ''SHOP'' ''SMART'' ''USD'') (MarketOrder ''BUY'' 55)]"
proof -
  have m: "map fst [(''AAPL'', ''LSE''), (''SHOP'', ''TSE'')] = map fst two_tickers"
    by (simp add: two_tickers_def)
  have b: "buy_loop (demo_env 0 0 10000 ''Filled'') 5000 two_tickers (None, []) w0 =
      ((Some 90,
        [(Stock ''AAPL'' ''SMART'' ''USD'', 20, ''NASDAQ''),
         (Stock ''SHOP'' ''SMART'' ''USD'', 55, ''TSX'')]),
       \<lparr>clock = 6,
        trace =
          [QualifyContracts (Stock ''AAPL'' ''SMART'' ''USD''),
           ReqMktData (Stock ''AAPL'' ''SMART'' ''USD''), Sleep 1,
           PlaceOrder (Stock ''AAPL'' ''SMART'' ''USD'') (MarketOrder ''BUY'' 20), Sleep 2,
           QualifyContracts (Stock ''SHOP'' ''SMART'' ''USD''),
           ReqMktData (Stock ''SHOP'' ''SMART'' ''USD''), Sleep 1,
           PlaceOrder (Stock ''SHOP'' ''SMART'' ''USD'') (MarketOrder ''BUY'' 55), Sleep 2]\<rparr>)"
    by (simp add: two_tickers_def buy_iteration_def pick_price_def share_quantity_def py_int_def
        placeOrder_def orders_placed_def sleep_def emit_def log_message_def demo_env_def
        demo_prices_def demo_status_def w0_def Let_def)
  show ?thesis
    using orders_on_smart_usd [where env = "demo_env 0 0 10000 ''Filled''" and a = 5000
        and stocks = two_tickers and stocks' = "[(''AAPL'', ''LSE''), (''SHOP'', ''TSE'')]"
        and st = "(None, [])" and mp = None and w = w0] m
    by (simp add: b)
qed

end
